theory Spec2Isabelle
  imports Main "HOL-Library.Word"
begin

section \<open>The libclang front end of cppast: configuration, database, batch entry points\<close>

text \<open>
  The development follows \<^verbatim>\<open>include/cppast/libclang_parser.hpp\<close>. Member functions with a
  body in that header are translated from the body. Functions that the header only
  declares are modelled from the specification; each such definition says so.
\<close>

subsection \<open>Errors\<close>

text \<open>
  The header throws one exception type, \<^verbatim>\<open>libclang_error\<close>, carrying a message; lines 38
  to 44 declare it as the exception for a fatal parse error. The specification names
  error kinds; \<open>InvalidArgument\<close> is the one raised by the parser driver, whose body is
  not in the header.
\<close>

datatype error = libclang_error string | InvalidArgument | PreprocessFailed

text \<open>The message built at line 232; \<open>CHR 0x27\<close> is the single quote.\<close>

definition config_not_found :: "string \<Rightarrow> error" where
  "config_not_found file =
     libclang_error (''unable to find configuration for file '' @ [CHR 0x27] @ file @ [CHR 0x27])"

subsection \<open>The compile configuration\<close>

text \<open>
  \<^verbatim>\<open>libclang_compile_config\<close> has the members \<^verbatim>\<open>clang_binary_\<close>, \<^verbatim>\<open>clang_version_\<close> (a C++
  \<^verbatim>\<open>int\<close>, here a 32-bit word read as two's complement by \<open>sint\<close>) and three one-bit
  flags; a member \<^verbatim>\<open>x_\<close> of the source is the field \<open>x_m\<close> here. The argument list
  lives in the base class \<^verbatim>\<open>compile_config\<close> and is read through
  \<^verbatim>\<open>libclang_compile_config_access::flags\<close>; it is the field \<open>flags\<close>.
\<close>

type_synonym c_int = "32 word"

record libclang_compile_config =
  flags :: "string list"
  clang_binary_m :: string
  clang_version_m :: c_int
  write_preprocessed_m :: bool
  fast_preprocessing_m :: bool
  remove_comments_in_macro_m :: bool

text \<open>Lines 123 to 127.\<close>

definition set_clang_binary ::
  "libclang_compile_config \<Rightarrow> string \<Rightarrow> c_int \<Rightarrow> c_int \<Rightarrow> c_int \<Rightarrow> libclang_compile_config" where
  "set_clang_binary c binary major minor patch =
     c\<lparr>clang_binary_m := binary, clang_version_m := major * 10000 + minor * 100 + patch\<rparr>"

text \<open>
  The packed integer of the specification, \<open>major * 10000 + minor * 100 + patch\<close>, over
  the mathematical integers.
\<close>

definition packed_version :: "c_int \<Rightarrow> c_int \<Rightarrow> c_int \<Rightarrow> int" where
  "packed_version major minor patch = sint major * 10000 + sint minor * 100 + sint patch"

text \<open>Lines 131 to 134, 144 to 147 and 153 to 156.\<close>

definition write_preprocessed :: "libclang_compile_config \<Rightarrow> bool \<Rightarrow> libclang_compile_config" where
  "write_preprocessed c b = c\<lparr>write_preprocessed_m := b\<rparr>"

definition fast_preprocessing :: "libclang_compile_config \<Rightarrow> bool \<Rightarrow> libclang_compile_config" where
  "fast_preprocessing c b = c\<lparr>fast_preprocessing_m := b\<rparr>"

definition remove_comments_in_macro :: "libclang_compile_config \<Rightarrow> bool \<Rightarrow> libclang_compile_config" where
  "remove_comments_in_macro c b = c\<lparr>remove_comments_in_macro_m := b\<rparr>"

text \<open>Lines 167 to 170.\<close>

definition do_get_name :: "libclang_compile_config \<Rightarrow> string" where
  "do_get_name c = ''libclang''"

subsection \<open>The compilation database\<close>

text \<open>
  \<^verbatim>\<open>libclang_compilation_database\<close> has one member, the opaque handle \<^verbatim>\<open>database_\<close> of type
  \<^verbatim>\<open>void*\<close>. A handle is null or points to what the loader produced from
  \<^verbatim>\<open>compile_commands.json\<close>: the entries in the loader's order, each a file key with the
  tokens of its command line. The pointee never changes once loaded, so a handle is
  modelled by its address together with the entries it points to.
\<close>

type_synonym compile_command = "string \<times> string list"

datatype database = nullptr | CXCompilationDatabase nat "compile_command list"

record libclang_compilation_database =
  database_m :: database

text \<open>
  The special member functions the class declares: the move constructor at line 58, the
  destructor at line 64 and the move assignment at line 66. The constructor from a
  build directory at line 56 is not a special member, and no copy operation is declared.
\<close>

datatype special_member =
  copy_constructor | copy_assignment | move_constructor | move_assignment | destructor

definition database_special_members :: "special_member list" where
  "database_special_members = [move_constructor, destructor, move_assignment]"

text \<open>
  The rule of the language for the copy operations of a class, from the special members
  it declares: a copy operation exists when the class declares it, or when the class
  declares neither a move constructor nor a move assignment, in which case the compiler
  supplies it. A class that declares a move operation and no copy operation has its
  implicit copy operations deleted.
\<close>

definition has_copy_constructor :: "special_member list \<Rightarrow> bool" where
  "has_copy_constructor declared \<longleftrightarrow>
     copy_constructor \<in> set declared
     \<or> (move_constructor \<notin> set declared \<and> move_assignment \<notin> set declared)"

definition has_copy_assignment :: "special_member list \<Rightarrow> bool" where
  "has_copy_assignment declared \<longleftrightarrow>
     copy_assignment \<in> set declared
     \<or> (move_constructor \<notin> set declared \<and> move_assignment \<notin> set declared)"

text \<open>
  The move constructor, lines 58 to 62. The result is the constructed object and
  \<^verbatim>\<open>other\<close> as the constructor leaves it.
\<close>

definition move_construct ::
  "libclang_compilation_database \<Rightarrow> libclang_compilation_database \<times> libclang_compilation_database" where
  "move_construct other = (\<lparr>database_m = database_m other\<rparr>, other\<lparr>database_m := nullptr\<rparr>)"

text \<open>
  Move assignment, lines 66 to 71, takes \<^verbatim>\<open>*this\<close> and \<^verbatim>\<open>other\<close> by reference, and the two
  may be one object. Objects therefore live in a store, addressed by number; the
  temporary \<^verbatim>\<open>tmp\<close> is a local of the call and is in no store. The result is the store
  after the call and the handle \<^verbatim>\<open>tmp\<close> holds when it is destroyed at the end of the body,
  which is the handle its destructor receives. A reference is always bound to an object;
  an address the store does not hold gives \<open>None\<close>.
\<close>

type_synonym database_store = "nat \<rightharpoonup> libclang_compilation_database"

definition move_assign :: "database_store \<Rightarrow> nat \<Rightarrow> nat \<Rightarrow> (database_store \<times> database) option" where
  "move_assign s this other =
     (case s other of
        None \<Rightarrow> None
      | Some src \<Rightarrow>
          (case move_construct src of
             (tmp, src') \<Rightarrow>
               (let s1 = s(other \<mapsto> src') in
                case s1 this of
                  None \<Rightarrow> None
                | Some dst \<Rightarrow>
                    (let tmp' = tmp\<lparr>database_m := database_m dst\<rparr>;
                         dst' = dst\<lparr>database_m := database_m tmp\<rparr>
                     in Some (s1(this \<mapsto> dst'), database_m tmp')))))"

subsection \<open>Looking a file up in the database\<close>

text \<open>
  Modelled from the spec: what is behind the handle is the loader's business. The
  entries the database lists; a moved-from database, whose handle is null, lists nothing.
\<close>

definition entries :: "libclang_compilation_database \<Rightarrow> compile_command list" where
  "entries db = (case database_m db of nullptr \<Rightarrow> [] | CXCompilationDatabase a es \<Rightarrow> es)"

text \<open>
  Modelled from the spec: \<^verbatim>\<open>has_config(const char*)\<close> is declared at line 75 and defined
  outside the header. The specification's \<^verbatim>\<open>has_record\<close>: whether the database lists an
  entry keyed by the name, by exact string match.
\<close>

definition has_config_cstr :: "libclang_compilation_database \<Rightarrow> string \<Rightarrow> bool" where
  "has_config_cstr db file_name \<longleftrightarrow> file_name \<in> fst ` set (entries db)"

text \<open>
  \<^verbatim>\<open>std::string::c_str()\<close> read as a C string: the characters before the first NUL.
\<close>

definition c_str :: "string \<Rightarrow> string" where
  "c_str s = takeWhile (\<lambda>c. c \<noteq> CHR 0x00) s"

text \<open>Lines 78 to 81: the overload for \<^verbatim>\<open>std::string\<close> passes \<^verbatim>\<open>file_name.c_str()\<close> on.\<close>

definition has_config :: "libclang_compilation_database \<Rightarrow> string \<Rightarrow> bool" where
  "has_config db file_name = has_config_cstr db (c_str file_name)"

text \<open>
  What the build system supplies: the default configuration (the default constructor of
  line 102, with the binary, the system include directory and the predefined macros) and
  the test for tokens of a recorded command line that the configuration's own operations
  could have set.
\<close>

record build_environment =
  default_config :: libclang_compile_config
  settable :: "string \<Rightarrow> bool"

text \<open>
  Modelled from the spec: what the constructor \<^verbatim>\<open>libclang_compile_config(database, file)\<close>,
  declared at line 116 and defined outside the header, makes of a record. Discard the
  program name and the terminating input-file argument of the command line, filter out
  the tokens that are not settable, inject the rest into the argument list, and then
  apply the defaults.
\<close>

definition config_from_record :: "build_environment \<Rightarrow> string list \<Rightarrow> libclang_compile_config" where
  "config_from_record env command =
     (default_config env)
       \<lparr>flags := filter (settable env) (butlast (tl command)) @ flags (default_config env)\<rparr>"

text \<open>
  Modelled from the spec: the constructor \<^verbatim>\<open>libclang_compile_config(database, file)\<close>
  itself. Locate the record for the file; if the file is absent from the database, fail
  with ConfigNotFound; otherwise build the configuration from the record.
\<close>

definition config_from_database ::
  "build_environment \<Rightarrow> libclang_compilation_database \<Rightarrow> string \<Rightarrow> error + libclang_compile_config" where
  "config_from_database env db file =
     (case map_of (entries db) file of
        None \<Rightarrow> Inl (config_not_found file)
      | Some command \<Rightarrow> Inr (config_from_record env command))"

text \<open>
  Modelled from the spec: \<^verbatim>\<open>find_config_for\<close> is declared at lines 188 and 189 and defined
  outside the header; this and the next four definitions are its parts. The candidate
  extensions in their fixed order.
\<close>

definition extensions :: "string list" where
  "extensions = [''.cpp'', ''.cc'', ''.cxx'', ''.c++'', ''.C'', ''.c'',
                 ''.hpp'', ''.hh'', ''.hxx'', ''.h++'', ''.H'', ''.h'']"

text \<open>
  Modelled from the spec: stripping the extension from a file name removes the last dot
  of the name and what follows it, and leaves a name without a dot as it is.
\<close>

definition strip_extension :: "string \<Rightarrow> string" where
  "strip_extension file_name =
     (if CHR ''.'' \<in> set file_name
      then rev (tl (dropWhile (\<lambda>c. c \<noteq> CHR ''.'') (rev file_name)))
      else file_name)"

text \<open>
  Modelled from the spec: step 1 of the lookup. If the database has a record for the
  name, a configuration built from it. The constructor's exception, were it thrown,
  would leave the lookup.
\<close>

definition config_if_listed ::
  "build_environment \<Rightarrow> libclang_compilation_database \<Rightarrow> string
   \<Rightarrow> error + libclang_compile_config option" where
  "config_if_listed env db file_name =
     (if has_config db file_name
      then (case config_from_database env db file_name of
              Inl e \<Rightarrow> Inl e
            | Inr config \<Rightarrow> Inr (Some config))
      else Inr None)"

text \<open>
  Modelled from the spec: step 2 of the lookup. Retry step 1 for each candidate
  extension in order and return the first hit; if none matches, return empty.
\<close>

fun try_extensions ::
  "build_environment \<Rightarrow> libclang_compilation_database \<Rightarrow> string \<Rightarrow> string list
   \<Rightarrow> error + libclang_compile_config option" where
  "try_extensions env db stem [] = Inr None"
| "try_extensions env db stem (ext # exts) =
     (case config_if_listed env db (stem @ ext) of
        Inl e \<Rightarrow> Inl e
      | Inr (Some config) \<Rightarrow> Inr (Some config)
      | Inr None \<Rightarrow> try_extensions env db stem exts)"

text \<open>
  Modelled from the spec: the lookup. Step 1 on the name as given; otherwise strip the
  extension and go through the candidates.
\<close>

definition find_config_for ::
  "build_environment \<Rightarrow> libclang_compilation_database \<Rightarrow> string
   \<Rightarrow> error + libclang_compile_config option" where
  "find_config_for env db file_name =
     (case config_if_listed env db file_name of
        Inl e \<Rightarrow> Inl e
      | Inr (Some config) \<Rightarrow> Inr (Some config)
      | Inr None \<Rightarrow> try_extensions env db (strip_extension file_name) extensions)"

subsection \<open>The batch entry points\<close>

text \<open>
  Both entry points are templates over \<^verbatim>\<open>FileParser\<close>. What they use of it is the type
  alias \<^verbatim>\<open>FileParser::parser\<close>, tested by a \<^verbatim>\<open>static_assert\<close>, and the member \<^verbatim>\<open>parse\<close>, called
  on a parser object held by reference. The parser object is a state \<open>'p\<close>, and \<^verbatim>\<open>parse\<close> a
  function that takes the state, the file name and the configuration to the state the
  call leaves and to the exception it throws, if it throws one.
\<close>

datatype parser_type = libclang_parser | other_parser string

record 'p file_parser =
  parser_t :: parser_type
  parse :: "'p \<Rightarrow> string \<Rightarrow> libclang_compile_config \<Rightarrow> 'p \<times> error option"

text \<open>
  A \<^verbatim>\<open>static_assert\<close> is decided when the template is instantiated: the instantiation is
  ill-formed, with the assertion's message, or it is the function of the body.
\<close>

datatype 'f template_instance = ill_formed string | well_formed 'f

definition static_assert :: "bool \<Rightarrow> string \<Rightarrow> 'f \<Rightarrow> 'f template_instance" where
  "static_assert condition message body = (if condition then well_formed body else ill_formed message)"

text \<open>
  What a batch call does for one file: resolving the configuration fails, or
  \<^verbatim>\<open>parser.parse\<close> is called with a configuration and returns or throws.
\<close>

datatype 'c step = config_failed error | parse_called 'c "error option"

text \<open>
  Modelled from the spec: the generic \<^verbatim>\<open>parse_files(parser, file_names, get_config)\<close> of
  \<^verbatim>\<open>cppast/parser.hpp\<close>, called at line 229, is not in the header. For each name, in
  order, resolve a configuration; if that fails, the file fails with that error; else
  call \<^verbatim>\<open>parser.parse(name, config)\<close>. Whether the call goes on to the next name after a
  failure of a file is the orchestrator's policy, which the specification leaves open:
  it is the parameter \<open>continue_past\<close>, asked with the file and its error. The result is
  the parser as the call leaves it and, file by file, what the call did.
\<close>

fun parse_files_basic ::
  "(string \<Rightarrow> error \<Rightarrow> bool) \<Rightarrow> ('p \<Rightarrow> string \<Rightarrow> 'c \<Rightarrow> 'p \<times> error option) \<Rightarrow> 'p \<Rightarrow> string list
   \<Rightarrow> (string \<Rightarrow> error + 'c) \<Rightarrow> 'p \<times> (string \<times> 'c step) list" where
  "parse_files_basic continue_past parse_fn p [] get_config = (p, [])"
| "parse_files_basic continue_past parse_fn p (file # files) get_config =
     (case get_config file of
        Inl e \<Rightarrow>
          if continue_past file e
          then (case parse_files_basic continue_past parse_fn p files get_config of
                  (q, steps) \<Rightarrow> (q, (file, config_failed e) # steps))
          else (p, [(file, config_failed e)])
      | Inr config \<Rightarrow>
          (case parse_fn p file config of
             (p', None) \<Rightarrow>
               (case parse_files_basic continue_past parse_fn p' files get_config of
                  (q, steps) \<Rightarrow> (q, (file, parse_called config None) # steps))
           | (p', Some e) \<Rightarrow>
               if continue_past file e
               then (case parse_files_basic continue_past parse_fn p' files get_config of
                       (q, steps) \<Rightarrow> (q, (file, parse_called config (Some e)) # steps))
               else (p', [(file, parse_called config (Some e))])))"

text \<open>The lambda of lines 229 to 234.\<close>

definition get_config ::
  "build_environment \<Rightarrow> libclang_compilation_database \<Rightarrow> string \<Rightarrow> error + libclang_compile_config" where
  "get_config env database file =
     (case find_config_for env database file of
        Inl e \<Rightarrow> Inl e
      | Inr None \<Rightarrow> Inl (config_not_found file)
      | Inr (Some config) \<Rightarrow> Inr config)"

text \<open>The body of \<^verbatim>\<open>parse_files\<close>, lines 229 to 234, and the template, lines 223 to 235.\<close>

definition parse_files ::
  "build_environment \<Rightarrow> (string \<Rightarrow> error \<Rightarrow> bool)
   \<Rightarrow> ('p \<Rightarrow> string \<Rightarrow> libclang_compile_config \<Rightarrow> 'p \<times> error option) \<Rightarrow> 'p \<Rightarrow> string list
   \<Rightarrow> libclang_compilation_database \<Rightarrow> 'p \<times> (string \<times> libclang_compile_config step) list" where
  "parse_files env continue_past parse_fn p file_names database =
     parse_files_basic continue_past parse_fn p file_names (get_config env database)"

definition parse_files_template ::
  "build_environment \<Rightarrow> (string \<Rightarrow> error \<Rightarrow> bool) \<Rightarrow> 'p file_parser
   \<Rightarrow> ('p \<Rightarrow> string list \<Rightarrow> libclang_compilation_database
       \<Rightarrow> 'p \<times> (string \<times> libclang_compile_config step) list) template_instance" where
  "parse_files_template env continue_past FileParser =
     static_assert (parser_t FileParser = libclang_parser) ''must use the libclang parser''
       (parse_files env continue_past (parse FileParser))"

text \<open>
  Modelled from the spec: the iteration of \<^verbatim>\<open>detail::for_each_file\<close> over the file keys. It
  visits every key once, in order, and gives the callback the user data and the key as
  a string of its own. An exception of the callback ends the iteration.
\<close>

fun for_each_entry ::
  "string list \<Rightarrow> 'u \<Rightarrow> ('u \<Rightarrow> string \<Rightarrow> 'u \<times> error option) \<Rightarrow> 'u \<times> error option" where
  "for_each_entry [] user_data callback = (user_data, None)"
| "for_each_entry (file # files) user_data callback =
     (case callback user_data file of
        (user_data', Some e) \<Rightarrow> (user_data', Some e)
      | (user_data', None) \<Rightarrow> for_each_entry files user_data' callback)"

text \<open>
  Modelled from the spec: \<^verbatim>\<open>detail::for_each_file\<close> is declared at lines 34 and 35 and
  defined outside the header. It visits every entry of the database exactly once, in
  the order the loader yields.
\<close>

definition for_each_file ::
  "libclang_compilation_database \<Rightarrow> 'u \<Rightarrow> ('u \<Rightarrow> string \<Rightarrow> 'u \<times> error option) \<Rightarrow> 'u \<times> error option" where
  "for_each_file database user_data callback =
     for_each_entry (map fst (entries database)) user_data callback"

text \<open>
  \<^verbatim>\<open>parse_database\<close>, lines 245 to 261: the local struct \<^verbatim>\<open>data_t\<close>, the callback of lines 255
  to 260, the body and the template. An exception of the constructor at line 258 or of
  \<^verbatim>\<open>parse\<close> at line 259 leaves the callback; the parser keeps what the call did to it.
\<close>

record 'p data_t =
  parser :: 'p
  database :: libclang_compilation_database

definition parse_database_callback ::
  "build_environment \<Rightarrow> ('p \<Rightarrow> string \<Rightarrow> libclang_compile_config \<Rightarrow> 'p \<times> error option)
   \<Rightarrow> 'p data_t \<Rightarrow> string \<Rightarrow> 'p data_t \<times> error option" where
  "parse_database_callback env parse_fn data file =
     (case config_from_database env (database data) file of
        Inl e \<Rightarrow> (data, Some e)
      | Inr config \<Rightarrow>
          (case parse_fn (parser data) file config of
             (p', thrown) \<Rightarrow> (data\<lparr>parser := p'\<rparr>, thrown)))"

definition parse_database ::
  "build_environment \<Rightarrow> ('p \<Rightarrow> string \<Rightarrow> libclang_compile_config \<Rightarrow> 'p \<times> error option) \<Rightarrow> 'p
   \<Rightarrow> libclang_compilation_database \<Rightarrow> 'p \<times> error option" where
  "parse_database env parse_fn p db =
     (case for_each_file db \<lparr>parser = p, database = db\<rparr> (parse_database_callback env parse_fn) of
        (data, outcome) \<Rightarrow> (parser data, outcome))"

definition parse_database_template ::
  "build_environment \<Rightarrow> 'p file_parser
   \<Rightarrow> ('p \<Rightarrow> libclang_compilation_database \<Rightarrow> 'p \<times> error option) template_instance" where
  "parse_database_template env FileParser =
     static_assert (parser_t FileParser = libclang_parser) ''must use the libclang parser''
       (parse_database env (parse FileParser))"

text \<open>
  Calling \<^verbatim>\<open>parse\<close> on a sequence of files with their configurations, in order, until a
  call throws: the behaviour \<open>parse_database\<close> is compared with.
\<close>

fun parse_until_throw ::
  "('p \<Rightarrow> string \<Rightarrow> 'c \<Rightarrow> 'p \<times> error option) \<Rightarrow> 'p \<Rightarrow> (string \<times> 'c) list \<Rightarrow> 'p \<times> error option" where
  "parse_until_throw parse_fn p [] = (p, None)"
| "parse_until_throw parse_fn p ((file, config) # rest) =
     (case parse_fn p file config of
        (p', None) \<Rightarrow> parse_until_throw parse_fn p' rest
      | (p', Some e) \<Rightarrow> (p', Some e))"

subsection \<open>The parser driver\<close>

text \<open>
  \<^verbatim>\<open>do_parse\<close> takes a \<^verbatim>\<open>compile_config\<close>, the polymorphic base class: the configuration is
  of the libclang kind or of another kind, which answers \<^verbatim>\<open>name()\<close> with a tag of its own.
\<close>

datatype compile_config = libclang_config libclang_compile_config | other_config string

text \<open>
  Modelled from the spec: \<^verbatim>\<open>compile_config::name()\<close> of the base class is not in the
  header; it answers with the tag of the configuration's kind, for the libclang kind
  through the override \<^verbatim>\<open>do_get_name\<close>.
\<close>

fun name :: "compile_config \<Rightarrow> string" where
  "name (libclang_config c) = do_get_name c"
| "name (other_config tag) = tag"

text \<open>
  Modelled from the spec: how the preprocessor is invoked is decided outside the
  header. The option for comments is \<^verbatim>\<open>-CC\<close> when the knob set by
  \<^verbatim>\<open>remove_comments_in_macro\<close> is true and \<^verbatim>\<open>-C\<close> otherwise; the note at line 152 of the
  header says the same.
\<close>

definition comment_option :: "libclang_compile_config \<Rightarrow> string" where
  "comment_option c = (if remove_comments_in_macro_m c then ''-CC'' else ''-C'')"



text \<open>
  Modelled from the spec: the options the driver adds to the configuration's argument
  vector for a preprocessing run, \<^verbatim>\<open>-E\<close> for preprocess-only and the option for comments.
\<close>

definition preprocess_options :: "libclang_compile_config \<Rightarrow> string list" where
  "preprocess_options c = [''-E'', comment_option c]"

text \<open>
  Modelled from the spec: the command line of the preprocessing child: the compiler
  binary of the configuration, its argument vector, the driver's options and the file.
\<close>

definition preprocess_command :: "libclang_compile_config \<Rightarrow> string \<Rightarrow> string list" where
  "preprocess_command c path = clang_binary_m c # flags c @ preprocess_options c @ [path]"

text \<open>
  Modelled from the spec: in fast mode a first child dumps the macros of the
  translation unit with \<^verbatim>\<open>-dM -E\<close>.
\<close>

definition macro_dump_command :: "libclang_compile_config \<Rightarrow> string \<Rightarrow> string list" where
  "macro_dump_command c path = clang_binary_m c # flags c @ [''-dM'', ''-E'', path]"

text \<open>
  Modelled from the spec: in fast mode the second child runs with \<^verbatim>\<open>-nostdinc\<close>, \<^verbatim>\<open>-undef\<close>
  and a \<^verbatim>\<open>-D\<close> for every macro collected.
\<close>

definition fast_preprocess_command ::
  "libclang_compile_config \<Rightarrow> string list \<Rightarrow> string \<Rightarrow> string list" where
  "fast_preprocess_command c macros path =
     clang_binary_m c # flags c @ preprocess_options c @ [''-nostdinc'', ''-undef'']
       @ map (\<lambda>m. ''-D'' @ m) macros @ [path]"

text \<open>
  The external programs: a child process answers a command line with its output lines
  or fails; the front end answers the preprocessed text and the argument vector with a
  syntax tree or an error.
\<close>

record 'ast externals =
  run_child :: "string list \<Rightarrow> string list option"
  front_end :: "string list \<Rightarrow> string list \<Rightarrow> error + 'ast"

text \<open>
  Modelled from the spec: the preprocessing pass. The result is the preprocessed text
  or the failure, and the command lines of the children spawned, in order.
\<close>

definition preprocess ::
  "'ast externals \<Rightarrow> libclang_compile_config \<Rightarrow> string \<Rightarrow> (error + string list) \<times> string list list" where
  "preprocess orc c path =
     (if fast_preprocessing_m c
      then (case run_child orc (macro_dump_command c path) of
              None \<Rightarrow> (Inl PreprocessFailed, [macro_dump_command c path])
            | Some macros \<Rightarrow>
                (case run_child orc (fast_preprocess_command c macros path) of
                   None \<Rightarrow> (Inl PreprocessFailed,
                            [macro_dump_command c path, fast_preprocess_command c macros path])
                 | Some text \<Rightarrow> (Inr text,
                            [macro_dump_command c path, fast_preprocess_command c macros path])))
      else (case run_child orc (preprocess_command c path) of
              None \<Rightarrow> (Inl PreprocessFailed, [preprocess_command c path])
            | Some text \<Rightarrow> (Inr text, [preprocess_command c path])))"

text \<open>Modelled from the spec: the name tag of the libclang parser driver.\<close>

definition libclang_parser_name :: string where
  "libclang_parser_name = ''libclang''"

text \<open>
  Modelled from the spec: \<^verbatim>\<open>libclang_parser::do_parse\<close> is declared at lines 206 and 207
  and defined outside the header. The configuration must be of the kind the driver
  recognises, checked by the name tag; on a mismatch of the tag or of the kind the call
  fails with InvalidArgument. Otherwise the file is preprocessed and handed to the
  front end. The result comes with the command lines of the children spawned.
\<close>

definition do_parse ::
  "'ast externals \<Rightarrow> string \<Rightarrow> compile_config \<Rightarrow> (error + 'ast) \<times> string list list" where
  "do_parse orc path config =
     (if name config \<noteq> libclang_parser_name then (Inl InvalidArgument, [])
      else (case config of
              other_config tag \<Rightarrow> (Inl InvalidArgument, [])
            | libclang_config c \<Rightarrow>
                (case preprocess orc c path of
                   (Inl e, children) \<Rightarrow> (Inl e, children)
                 | (Inr text, children) \<Rightarrow> (front_end orc text (flags c), children))))"

subsection \<open>Copying a configuration\<close>

text \<open>
  Lines 118 and 119 default the copy constructor and the copy assignment: each member
  is copied, and every member is a value (a string, a vector of strings, an \<^verbatim>\<open>int\<close>, a
  bit). Configurations live in a store so that the original and the copy are two
  objects; the copy constructor builds its object at an address, the copy assignment
  overwrites an existing one.
\<close>

type_synonym config_store = "nat \<rightharpoonup> libclang_compile_config"

definition copy_construct :: "config_store \<Rightarrow> nat \<Rightarrow> nat \<Rightarrow> config_store option" where
  "copy_construct s this other =
     (case s other of None \<Rightarrow> None | Some c \<Rightarrow> Some (s(this \<mapsto> c)))"

definition copy_assign :: "config_store \<Rightarrow> nat \<Rightarrow> nat \<Rightarrow> config_store option" where
  "copy_assign s this other =
     (case s other of
        None \<Rightarrow> None
      | Some c \<Rightarrow> (case s this of None \<Rightarrow> None | Some old \<Rightarrow> Some (s(this \<mapsto> c))))"

text \<open>
  The setters: the four with a body in the header, and the setters of the base class,
  which reach the overrides declared at lines 159 to 165; their bodies are elsewhere,
  so such a setter is any function of the object it is called on.
\<close>

datatype setter =
    Set_clang_binary string c_int c_int c_int
  | Write_preprocessed bool
  | Fast_preprocessing bool
  | Remove_comments_in_macro bool
  | Base_class_setter "libclang_compile_config \<Rightarrow> libclang_compile_config"

fun apply_setter :: "libclang_compile_config \<Rightarrow> setter \<Rightarrow> libclang_compile_config" where
  "apply_setter c (Set_clang_binary binary major minor patch) = set_clang_binary c binary major minor patch"
| "apply_setter c (Write_preprocessed b) = write_preprocessed c b"
| "apply_setter c (Fast_preprocessing b) = fast_preprocessing c b"
| "apply_setter c (Remove_comments_in_macro b) = remove_comments_in_macro c b"
| "apply_setter c (Base_class_setter f) = f c"

fun call_setters :: "config_store \<Rightarrow> nat \<Rightarrow> setter list \<Rightarrow> config_store option" where
  "call_setters s this [] = Some s"
| "call_setters s this (op # ops) =
     (case s this of
        None \<Rightarrow> None
      | Some c \<Rightarrow> call_setters (s(this \<mapsto> apply_setter c op)) this ops)"

subsection \<open>The scenario of the specification\<close>

text \<open>
  A database with the one record of the specification's scenarios, a build environment
  that keeps the options for the standard, include directories and macros, external
  programs that echo what they are given, a database of two files, a parser that
  records the calls of \<^verbatim>\<open>parse\<close> it receives, one that also throws a fatal parse error on
  one file, and the two constant policies.
\<close>

definition scenario_database :: libclang_compilation_database where
  "scenario_database =
     \<lparr>database_m = CXCompilationDatabase 1
        [(''/src/a.cpp'',
          [''clang++'', ''-std=c++14'', ''-I/src/inc'', ''-DFOO=1'', ''-c'', ''/src/a.cpp''])]\<rparr>"

definition scenario_settable :: "string \<Rightarrow> bool" where
  "scenario_settable token \<longleftrightarrow>
     take 2 token \<in> {''-I'', ''-D'', ''-U''} \<or> take 5 token = ''-std=''"

definition scenario_environment :: build_environment where
  "scenario_environment =
     \<lparr>default_config =
        \<lparr>flags = [''-D__cppast__=\"libclang\"'', ''-D__cppast_major__=0'', ''-D__cppast_minor__=0''],
         clang_binary_m = ''clang++'', clang_version_m = 40000,
         write_preprocessed_m = False, fast_preprocessing_m = False,
         remove_comments_in_macro_m = False\<rparr>,
      settable = scenario_settable\<rparr>"

definition scenario_config :: libclang_compile_config where
  "scenario_config =
     \<lparr>flags = [''-std=c++14'', ''-I/src/inc'', ''-DFOO=1'',
               ''-D__cppast__=\"libclang\"'', ''-D__cppast_major__=0'', ''-D__cppast_minor__=0''],
      clang_binary_m = ''clang++'', clang_version_m = 40000,
      write_preprocessed_m = False, fast_preprocessing_m = False,
      remove_comments_in_macro_m = False\<rparr>"

definition scenario_externals :: "string list externals" where
  "scenario_externals =
     \<lparr>run_child = (\<lambda>command. Some command), front_end = (\<lambda>text arguments. Inr text)\<rparr>"

definition two_file_database :: libclang_compilation_database where
  "two_file_database =
     \<lparr>database_m = CXCompilationDatabase 2
        [(''/src/b.cc'', [''clang++'', ''-DB'', ''-o'', ''b.o'', ''/src/b.cc'']),
         (''/src/a.cpp'', [''clang++'', ''-std=c++14'', ''-c'', ''/src/a.cpp''])]\<rparr>"

definition recording_parse ::
  "(string \<times> libclang_compile_config) list \<Rightarrow> string \<Rightarrow> libclang_compile_config
   \<Rightarrow> (string \<times> libclang_compile_config) list \<times> error option" where
  "recording_parse calls file config = (calls @ [(file, config)], None)"

definition recording_parse_fatal_on ::
  "string \<Rightarrow> (string \<times> libclang_compile_config) list \<Rightarrow> string \<Rightarrow> libclang_compile_config
   \<Rightarrow> (string \<times> libclang_compile_config) list \<times> error option" where
  "recording_parse_fatal_on bad calls file config =
     (calls @ [(file, config)],
      if file = bad then Some (libclang_error ''fatal parse error'') else None)"


definition never_continue :: "string \<Rightarrow> error \<Rightarrow> bool" where
  "never_continue file e = False"

section \<open>Properties\<close>

subsection \<open>Packing the compiler version\<close>

lemma stored_version_wraps:
  "sint (major * 10000 + minor * 100 + patch :: c_int)
   = signed_take_bit 31 (packed_version major minor patch)"
proof -
  have "major * 10000 + minor * 100 + patch
        = (word_of_int (packed_version major minor patch) :: c_int)"
    by (simp add: packed_version_def)
  then show ?thesis
    by (simp add: sint_sbintrunc')
qed

text \<open>
  C7, as amended. After \<open>set_clang_binary c path major minor patch\<close> the binary path is
  \<open>path\<close>, for every path and all \<^verbatim>\<open>int\<close> values. The stored version, read as a signed
  integer, is the packed integer \<open>major * 10000 + minor * 100 + patch\<close> exactly when
  that integer lies in the range of a 32-bit \<^verbatim>\<open>int\<close>; in every case it is the packed
  integer wrapped into that range. Nothing else of the configuration changes.
\<close>

theorem set_clang_binary_packs_version:
  "clang_binary_m (set_clang_binary c path major minor patch) = path
   \<and> (sint (clang_version_m (set_clang_binary c path major minor patch))
         = packed_version major minor patch
       \<longleftrightarrow> - 2147483648 \<le> packed_version major minor patch
           \<and> packed_version major minor patch < 2147483648)
   \<and> sint (clang_version_m (set_clang_binary c path major minor patch))
       = signed_take_bit 31 (packed_version major minor patch)
   \<and> flags (set_clang_binary c path major minor patch) = flags c
   \<and> write_preprocessed_m (set_clang_binary c path major minor patch) = write_preprocessed_m c
   \<and> fast_preprocessing_m (set_clang_binary c path major minor patch) = fast_preprocessing_m c
   \<and> remove_comments_in_macro_m (set_clang_binary c path major minor patch)
       = remove_comments_in_macro_m c"
proof -
  have "signed_take_bit 31 (packed_version major minor patch) = packed_version major minor patch
        \<longleftrightarrow> - 2147483648 \<le> packed_version major minor patch
            \<and> packed_version major minor patch < 2147483648"
    using signed_take_bit_int_eq_self_iff [of 31 "packed_version major minor patch"] by simp
  then show ?thesis
    using stored_version_wraps [of major minor patch]
    by (simp add: set_clang_binary_def)
qed

theorem set_clang_binary_packs_version_witness:
  "packed_version 3 9 1 = 30901
   \<and> clang_binary_m (set_clang_binary scenario_config ''/usr/bin/clang++-3.9'' 3 9 1)
       = ''/usr/bin/clang++-3.9''
   \<and> sint (clang_version_m (set_clang_binary scenario_config ''/usr/bin/clang++-3.9'' 3 9 1))
       = 30901
   \<and> packed_version (- 1) (- 1) (- 1) = - 10101
   \<and> sint (clang_version_m (set_clang_binary scenario_config ''clang++'' (- 1) (- 1) (- 1)))
       = - 10101"
proof -
  have a: "packed_version 3 9 1 = 30901"
    by (simp add: packed_version_def)
  have b: "packed_version (- 1) (- 1) (- 1) = - 10101"
    by (simp add: packed_version_def)
  show ?thesis
    using a b
      set_clang_binary_packs_version
        [where c = scenario_config and path = "''/usr/bin/clang++-3.9''"
           and major = 3 and minor = 9 and patch = 1]
      set_clang_binary_packs_version
        [where c = scenario_config and path = "''clang++''"
           and major = "- 1" and minor = "- 1" and patch = "- 1"]
    by simp
qed

text \<open>
  The claim as it is written, for all integers, fails where the packed integer does not
  fit: for the version 300000.0.0 it is 3000000000 and the stored version is another
  number.
\<close>

theorem set_clang_binary_overflow_counterexample:
  "packed_version 300000 0 0 = 3000000000
   \<and> sint (clang_version_m (set_clang_binary scenario_config ''clang++'' 300000 0 0))
       = - 1294967296"
  by (simp add: packed_version_def set_clang_binary_def)

subsection \<open>Moving a compilation database\<close>

lemma move_assign_distinct:
  assumes "s this = Some dst" "s other = Some d" "this \<noteq> other"
  shows "move_assign s this other
         = Some (s(other \<mapsto> d\<lparr>database_m := nullptr\<rparr>,
                   this \<mapsto> dst\<lparr>database_m := database_m d\<rparr>), database_m dst)"
  using assms by (simp add: move_assign_def move_construct_def)

lemma move_assign_self:
  assumes "s d = Some x"
  shows "move_assign s d d = Some (s, nullptr)"
proof -
  have "s(d \<mapsto> x) = s"
    using assms by (simp add: fun_upd_idem)
  then show ?thesis
    using assms by (simp add: move_assign_def move_construct_def)
qed

text \<open>
  C6, as amended. The compilation database cannot be copied: by the special members it
  declares it has neither a copy constructor nor a copy assignment. Move construction
  from \<open>d\<close> gives the new object \<open>d\<close>'s handle and leaves \<open>d\<close> with the null handle. Move
  assignment from \<open>d\<close> to a different object does the same, hands the handle the
  destination held before to the temporary's destructor, and touches no third object.
  Move assignment of an object to itself leaves its handle, and the store, as they were.
\<close>

theorem move_transfers_handle:
  "\<not> has_copy_constructor database_special_members
   \<and> \<not> has_copy_assignment database_special_members
   \<and> database_m (fst (move_construct d)) = database_m d
   \<and> database_m (snd (move_construct d)) = nullptr
   \<and> (s this = Some dst \<and> s other = Some d \<and> this \<noteq> other \<longrightarrow>
        (\<exists>s'. move_assign s this other = Some (s', database_m dst)
              \<and> map_option database_m (s' this) = Some (database_m d)
              \<and> map_option database_m (s' other) = Some nullptr
              \<and> (\<forall>a. a \<noteq> this \<and> a \<noteq> other \<longrightarrow> s' a = s a)))
   \<and> (s this = Some d \<longrightarrow> move_assign s this this = Some (s, nullptr))"
proof -
  have "\<exists>s'. move_assign s this other = Some (s', database_m dst)
              \<and> map_option database_m (s' this) = Some (database_m d)
              \<and> map_option database_m (s' other) = Some nullptr
              \<and> (\<forall>a. a \<noteq> this \<and> a \<noteq> other \<longrightarrow> s' a = s a)"
    if h: "s this = Some dst" "s other = Some d" "this \<noteq> other"
    using move_assign_distinct [OF h] h(3) by simp
  moreover have "move_assign s this this = Some (s, nullptr)" if "s this = Some d"
    using that by (rule move_assign_self)
  ultimately show ?thesis
    by (simp add: move_construct_def has_copy_constructor_def has_copy_assignment_def
        database_special_members_def)
qed

theorem move_transfers_handle_witness:
  "move_assign (map_of [(1, \<lparr>database_m = CXCompilationDatabase 7 []\<rparr>),
                        (2, \<lparr>database_m = CXCompilationDatabase 8 [(''/src/a.cpp'', [])]\<rparr>)]) 1 2
   = Some (map_of [(1, \<lparr>database_m = CXCompilationDatabase 8 [(''/src/a.cpp'', [])]\<rparr>),
                   (2, \<lparr>database_m = nullptr\<rparr>)],
           CXCompilationDatabase 7 [])
   \<and> move_assign (map_of [(1, \<lparr>database_m = CXCompilationDatabase 7 []\<rparr>),
                        (2, \<lparr>database_m = CXCompilationDatabase 8 [(''/src/a.cpp'', [])]\<rparr>)]) 2 2
   = Some (map_of [(1, \<lparr>database_m = CXCompilationDatabase 7 []\<rparr>),
                   (2, \<lparr>database_m = CXCompilationDatabase 8 [(''/src/a.cpp'', [])]\<rparr>)],
           nullptr)"
proof -
  let ?s = "map_of [(1::nat, \<lparr>database_m = CXCompilationDatabase 7 []\<rparr>),
                    (2, \<lparr>database_m = CXCompilationDatabase 8 [(''/src/a.cpp'', [])]\<rparr>)]"
  have pre: "?s 1 = Some \<lparr>database_m = CXCompilationDatabase 7 []\<rparr>
             \<and> ?s 2 = Some \<lparr>database_m = CXCompilationDatabase 8 [(''/src/a.cpp'', [])]\<rparr>
             \<and> (1::nat) \<noteq> 2"
    by simp
  from move_transfers_handle
    [where d = "\<lparr>database_m = CXCompilationDatabase 8 [(''/src/a.cpp'', [])]\<rparr>" and s = ?s
       and this = 1 and dst = "\<lparr>database_m = CXCompilationDatabase 7 []\<rparr>" and other = 2] pre
  obtain s' where s':
    "move_assign ?s 1 2 = Some (s', CXCompilationDatabase 7 [])"
    "map_option database_m (s' 1) = Some (CXCompilationDatabase 8 [(''/src/a.cpp'', [])])"
    "map_option database_m (s' 2) = Some nullptr"
    "\<forall>a. a \<noteq> 1 \<and> a \<noteq> 2 \<longrightarrow> s' a = ?s a"
    by auto
  have "s' a = map_of [(1, \<lparr>database_m = CXCompilationDatabase 8 [(''/src/a.cpp'', [])]\<rparr>),
                       (2, \<lparr>database_m = nullptr\<rparr>)] a" for a
    using s'(2,3,4) by (cases "a = 1"; cases "a = 2") auto
  then have "s' = map_of [(1, \<lparr>database_m = CXCompilationDatabase 8 [(''/src/a.cpp'', [])]\<rparr>),
                          (2, \<lparr>database_m = nullptr\<rparr>)]"
    by (rule ext)
  with s'(1) have first: "move_assign ?s 1 2
     = Some (map_of [(1, \<lparr>database_m = CXCompilationDatabase 8 [(''/src/a.cpp'', [])]\<rparr>),
                     (2, \<lparr>database_m = nullptr\<rparr>)], CXCompilationDatabase 7 [])"
    by simp
  have second: "move_assign ?s 2 2 = Some (?s, nullptr)"
    using move_transfers_handle
      [where d = "\<lparr>database_m = CXCompilationDatabase 8 [(''/src/a.cpp'', [])]\<rparr>" and s = ?s
         and this = 2 and dst = "\<lparr>database_m = CXCompilationDatabase 7 []\<rparr>" and other = 1] pre
    by blast
  from first second show ?thesis
    by (intro conjI)
qed

text \<open>
  The claim as it is written, for every database and with no condition on the
  destination, fails when a database is move-assigned to itself: its handle is not null
  afterwards.
\<close>

theorem move_assign_self_counterexample:
  "move_assign (map_of [(5, \<lparr>database_m = CXCompilationDatabase 9 [(''/src/a.cpp'', [])]\<rparr>)]) 5 5
   = Some (map_of [(5, \<lparr>database_m = CXCompilationDatabase 9 [(''/src/a.cpp'', [])]\<rparr>)], nullptr)
   \<and> CXCompilationDatabase 9 [(''/src/a.cpp'', [])] \<noteq> nullptr"
  by (simp add: move_assign_def move_construct_def)

text \<open>
  C10. Self move assignment leaves the object, and the whole store, as it was: \<open>d\<close>
  owns the handle it owned before, and the temporary is destroyed holding the null
  handle, so the owned handle is not given to a destructor.
\<close>

theorem self_move_assign_keeps_handle:
  "s d = Some x \<Longrightarrow> move_assign s d d = Some (s, nullptr)"
  by (simp add: move_assign_self)

theorem self_move_assign_keeps_handle_witness:
  "map_of [(3, \<lparr>database_m = CXCompilationDatabase 4 [(''/src/b.cc'', [''clang++''])]\<rparr>)] 3
     = Some \<lparr>database_m = CXCompilationDatabase 4 [(''/src/b.cc'', [''clang++''])]\<rparr>
   \<and> move_assign
        (map_of [(3, \<lparr>database_m = CXCompilationDatabase 4 [(''/src/b.cc'', [''clang++''])]\<rparr>)]) 3 3
     = Some (map_of [(3, \<lparr>database_m = CXCompilationDatabase 4 [(''/src/b.cc'', [''clang++''])]\<rparr>)],
             nullptr)"
proof -
  have h: "map_of [(3::nat, \<lparr>database_m = CXCompilationDatabase 4 [(''/src/b.cc'', [''clang++''])]\<rparr>)] 3
           = Some \<lparr>database_m = CXCompilationDatabase 4 [(''/src/b.cc'', [''clang++''])]\<rparr>"
    by simp
  show ?thesis
    using h self_move_assign_keeps_handle
      [of "map_of [(3, \<lparr>database_m = CXCompilationDatabase 4 [(''/src/b.cc'', [''clang++''])]\<rparr>)]"
          3 "\<lparr>database_m = CXCompilationDatabase 4 [(''/src/b.cc'', [''clang++''])]\<rparr>"]
    by simp
qed

subsection \<open>Configuration lookup\<close>

lemma c_str_nul_free: "CHR 0x00 \<notin> set s \<Longrightarrow> c_str s = s"
  by (auto simp: c_str_def takeWhile_eq_all_conv)

lemma strip_extension_subset: "set (strip_extension f) \<subseteq> set f"
proof (cases "CHR ''.'' \<in> set f")
  case True
  have "set (tl ys) \<subseteq> set ys" for ys :: string
    by (cases ys) auto
  then have "set (tl (dropWhile (\<lambda>c. c \<noteq> CHR ''.'') (rev f)))
             \<subseteq> set (dropWhile (\<lambda>c. c \<noteq> CHR ''.'') (rev f))" .
  also have "\<dots> \<subseteq> set (rev f)"
    by (auto dest: set_dropWhileD)
  finally have "set (tl (dropWhile (\<lambda>c. c \<noteq> CHR ''.'') (rev f))) \<subseteq> set (rev f)" .
  with True show ?thesis by (simp add: strip_extension_def)
next
  case False
  then show ?thesis by (simp add: strip_extension_def)
qed

lemma candidate_nul_free:
  assumes "CHR 0x00 \<notin> set f" "e \<in> set extensions"
  shows "CHR 0x00 \<notin> set (strip_extension f @ e)"
proof -
  have "CHR 0x00 \<notin> set e"
    using assms(2) by (auto simp: extensions_def)
  moreover have "CHR 0x00 \<notin> set (strip_extension f)"
    using assms(1) strip_extension_subset [of f] by auto
  ultimately show ?thesis by simp
qed

lemma has_config_map_of:
  "CHR 0x00 \<notin> set f \<Longrightarrow> has_config db f \<longleftrightarrow> map_of (entries db) f \<noteq> None"
  by (simp add: has_config_def has_config_cstr_def c_str_nul_free map_of_eq_None_iff)

lemma config_if_listed_hit:
  assumes "CHR 0x00 \<notin> set f" "has_config db f"
  shows "\<exists>c. config_from_database env db f = Inr c \<and> config_if_listed env db f = Inr (Some c)"
proof -
  from assms obtain command where "map_of (entries db) f = Some command"
    by (auto simp: has_config_map_of)
  then show ?thesis
    using assms(2) by (simp add: config_from_database_def config_if_listed_def)
qed

lemma config_if_listed_miss: "\<not> has_config db f \<Longrightarrow> config_if_listed env db f = Inr None"
  by (simp add: config_if_listed_def)

lemma try_extensions_miss:
  "\<forall>e\<in>set exts. \<not> has_config db (stem @ e) \<Longrightarrow> try_extensions env db stem exts = Inr None"
  by (induction exts) (simp_all add: config_if_listed_miss)

lemma try_extensions_first_hit:
  assumes "\<forall>e'\<in>set pre. \<not> has_config db (stem @ e')" "has_config db (stem @ e)"
    "CHR 0x00 \<notin> set (stem @ e)"
  shows "try_extensions env db stem (pre @ e # post) = config_if_listed env db (stem @ e)"
  using assms
proof (induction pre)
  case Nil
  from config_if_listed_hit [OF Nil(3) Nil(2)] obtain c
    where "config_if_listed env db (stem @ e) = Inr (Some c)" by blast
  then show ?case by simp
next
  case (Cons x pre)
  then show ?case by (simp add: config_if_listed_miss)
qed

text \<open>
  C1. For a file name, which holds no NUL character: the candidate list is the fixed
  one. When the database has a record for the name, the lookup returns the
  configuration the constructor builds from that record. Otherwise, with the extension
  stripped, it returns the configuration built for the first candidate extension, in
  the order of the list, whose substituted name has a record; when no candidate has one
  it returns empty. Having a record is being a key of an entry.
\<close>

theorem find_config_for_first_hit:
  assumes "CHR 0x00 \<notin> set f"
  shows
  "extensions = [''.cpp'', ''.cc'', ''.cxx'', ''.c++'', ''.C'', ''.c'',
                 ''.hpp'', ''.hh'', ''.hxx'', ''.h++'', ''.H'', ''.h'']
   \<and> (has_config db f \<longleftrightarrow> f \<in> fst ` set (entries db))
   \<and> (has_config db f \<longrightarrow>
        (\<exists>c. config_from_database env db f = Inr c \<and> find_config_for env db f = Inr (Some c)))
   \<and> (\<not> has_config db f \<and> extensions = pre @ e # post
        \<and> (\<forall>e'\<in>set pre. \<not> has_config db (strip_extension f @ e'))
        \<and> has_config db (strip_extension f @ e) \<longrightarrow>
        (\<exists>c. config_from_database env db (strip_extension f @ e) = Inr c
             \<and> find_config_for env db f = Inr (Some c)))
   \<and> (\<not> has_config db f \<and> (\<forall>e\<in>set extensions. \<not> has_config db (strip_extension f @ e)) \<longrightarrow>
        find_config_for env db f = Inr None)"
proof -
  have keyed: "has_config db f \<longleftrightarrow> f \<in> fst ` set (entries db)"
    using assms by (simp add: has_config_def has_config_cstr_def c_str_nul_free)
  have direct: "\<exists>c. config_from_database env db f = Inr c \<and> find_config_for env db f = Inr (Some c)"
    if "has_config db f"
    using config_if_listed_hit [OF assms that, of env] by (auto simp: find_config_for_def)
  have fallback: "\<exists>c. config_from_database env db (strip_extension f @ e) = Inr c
                      \<and> find_config_for env db f = Inr (Some c)"
    if "\<not> has_config db f" "extensions = pre @ e # post"
       "\<forall>e'\<in>set pre. \<not> has_config db (strip_extension f @ e')"
       "has_config db (strip_extension f @ e)"
  proof -
    have "e \<in> set extensions"
      unfolding that(2) by simp
    then have nul: "CHR 0x00 \<notin> set (strip_extension f @ e)"
      using assms by (rule candidate_nul_free [rotated])
    have "find_config_for env db f = try_extensions env db (strip_extension f) (pre @ e # post)"
      using that(1,2) by (simp add: find_config_for_def config_if_listed_miss)
    also have "\<dots> = config_if_listed env db (strip_extension f @ e)"
      using that(3,4) nul by (rule try_extensions_first_hit)
    finally show ?thesis
      using config_if_listed_hit [OF nul that(4), of env] by auto
  qed
  have none: "find_config_for env db f = Inr None"
    if "\<not> has_config db f" "\<forall>e\<in>set extensions. \<not> has_config db (strip_extension f @ e)"
    using that by (simp add: find_config_for_def config_if_listed_miss try_extensions_miss)
  show ?thesis
    using keyed direct fallback none by (simp add: extensions_def)
qed

lemmas scenario_defs =
  scenario_database_def scenario_environment_def scenario_settable_def scenario_config_def
  has_config_def has_config_cstr_def c_str_def entries_def config_from_database_def
  config_from_record_def strip_extension_def

theorem find_config_for_first_hit_witness:
  "CHR 0x00 \<notin> set ''/src/a.cpp''
   \<and> has_config scenario_database ''/src/a.cpp''
   \<and> find_config_for scenario_environment scenario_database ''/src/a.cpp'' = Inr (Some scenario_config)
   \<and> CHR 0x00 \<notin> set ''/src/a.hpp''
   \<and> \<not> has_config scenario_database ''/src/a.hpp''
   \<and> strip_extension ''/src/a.hpp'' @ ''.cpp'' = ''/src/a.cpp''
   \<and> find_config_for scenario_environment scenario_database ''/src/a.hpp'' = Inr (Some scenario_config)
   \<and> CHR 0x00 \<notin> set ''/src/z.cpp''
   \<and> \<not> has_config scenario_database ''/src/z.cpp''
   \<and> find_config_for scenario_environment scenario_database ''/src/z.cpp'' = Inr None"
proof -
  have nul: "CHR 0x00 \<notin> set ''/src/a.cpp''" "CHR 0x00 \<notin> set ''/src/a.hpp''"
    "CHR 0x00 \<notin> set ''/src/z.cpp''"
    by simp_all
  have listed: "has_config scenario_database ''/src/a.cpp''"
    by (simp add: scenario_defs)
  have built: "config_from_database scenario_environment scenario_database ''/src/a.cpp''
               = Inr scenario_config"
    by (simp add: scenario_defs)
  have header: "\<not> has_config scenario_database ''/src/a.hpp''"
    by (simp add: scenario_defs)
  have stem: "strip_extension ''/src/a.hpp'' @ ''.cpp'' = ''/src/a.cpp''"
    by (simp add: strip_extension_def)
  have split: "extensions = [] @ ''.cpp'' # [''.cc'', ''.cxx'', ''.c++'', ''.C'', ''.c'',
                 ''.hpp'', ''.hh'', ''.hxx'', ''.h++'', ''.H'', ''.h'']"
    by (simp add: extensions_def)
  have absent: "\<not> has_config scenario_database ''/src/z.cpp''"
    by (simp add: scenario_defs)
  have no_candidate:
    "\<forall>e\<in>set extensions. \<not> has_config scenario_database (strip_extension ''/src/z.cpp'' @ e)"
    by (simp add: scenario_defs extensions_def)
  have s1: "find_config_for scenario_environment scenario_database ''/src/a.cpp''
            = Inr (Some scenario_config)"
    using find_config_for_first_hit [OF nul(1), where db = scenario_database
        and env = scenario_environment and pre = "[]" and e = "''.cpp''" and post = "[]"] listed built
    by auto
  have s2: "find_config_for scenario_environment scenario_database ''/src/a.hpp''
            = Inr (Some scenario_config)"
    using find_config_for_first_hit [OF nul(2), where db = scenario_database
        and env = scenario_environment and pre = "[]" and e = "''.cpp''"
        and post = "[''.cc'', ''.cxx'', ''.c++'', ''.C'', ''.c'',
                     ''.hpp'', ''.hh'', ''.hxx'', ''.h++'', ''.H'', ''.h'']"]
      header split stem listed built
    by auto
  have s3: "find_config_for scenario_environment scenario_database ''/src/z.cpp'' = Inr None"
    using find_config_for_first_hit [OF nul(3), where db = scenario_database
        and env = scenario_environment and pre = "[]" and e = "''.cpp''" and post = "[]"]
      absent no_candidate
    by blast
  show ?thesis
    using nul listed header stem absent s1 s2 s3 by blast
qed

subsection \<open>Parsing a list of files\<close>










subsection \<open>Parsing every file of a database\<close>

lemma config_for_listed:
  assumes "f \<in> fst ` set (entries db)"
  shows "\<exists>c. config_from_database env db f = Inr c"
proof -
  from assms obtain command where "map_of (entries db) f = Some command"
    by (metis map_of_eq_None_iff not_Some_eq)
  then show ?thesis
    by (simp add: config_from_database_def)
qed

lemma parse_database_loop:
  "list_all2 (\<lambda>f c. config_from_database env db f = Inr c) fs cs \<Longrightarrow>
   for_each_entry fs \<lparr>parser = p, database = db\<rparr> (parse_database_callback env P)
   = (\<lparr>parser = fst (parse_until_throw P p (zip fs cs)), database = db\<rparr>,
      snd (parse_until_throw P p (zip fs cs)))"
  by (induction fs cs arbitrary: p rule: list_all2_induct)
     (auto simp: parse_database_callback_def case_prod_beta split: option.splits)

lemma parse_until_throw_no_throw:
  "\<forall>q f c. snd (P q f c) = None \<Longrightarrow>
   parse_until_throw P p xs = (foldl (\<lambda>q (f, c). fst (P q f c)) p xs, None)"
proof (induction xs arbitrary: p)
  case Nil
  then show ?case by simp
next
  case (Cons x xs)
  obtain f c where x: "x = (f, c)" by (cases x)
  from Cons.prems have "P p f c = (fst (P p f c), None)"
    by (metis prod.collapse)
  then have "parse_until_throw P p ((f, c) # xs) = parse_until_throw P (fst (P p f c)) xs"
    by (metis (no_types, lifting) parse_until_throw.simps(2) old.prod.case option.simps(4))
  with Cons x show ?case
    by simp
qed

lemma listed_configs:
  "set fs \<subseteq> fst ` set (entries db) \<Longrightarrow>
   \<exists>cs. list_all2 (\<lambda>f c. config_from_database env db f = Inr c) fs cs"
proof (induction fs)
  case Nil
  then show ?case by simp
next
  case (Cons f fs)
  then obtain cs where "list_all2 (\<lambda>f c. config_from_database env db f = Inr c) fs cs"
    by auto
  moreover from Cons.prems obtain c where "config_from_database env db f = Inr c"
    using config_for_listed [of f db env] by auto
  ultimately have "list_all2 (\<lambda>f c. config_from_database env db f = Inr c) (f # fs) (c # cs)"
    by simp
  then show ?case by blast
qed

lemma distinct_configs:
  "distinct (map fst es) \<Longrightarrow> set es \<subseteq> set (entries db) \<Longrightarrow> distinct (map fst (entries db)) \<Longrightarrow>
   list_all2 (\<lambda>f c. config_from_database env db f = Inr c) (map fst es)
     (map (\<lambda>(f, command). config_from_record env command) es)"
proof (induction es)
  case Nil
  then show ?case by simp
next
  case (Cons x es)
  obtain f command where x: "x = (f, command)" by (cases x)
  with Cons.prems have "map_of (entries db) f = Some command"
    by simp
  then have "config_from_database env db f = Inr (config_from_record env command)"
    by (simp add: config_from_database_def)
  with Cons x show ?case by simp
qed

lemma zip_keys_configs:
  "zip (map fst es) (map (\<lambda>(f, command). g command) es) = map (\<lambda>(f, command). (f, g command)) es"
  by (induction es) auto

text \<open>
  C4, as amended. \<open>parse_database\<close> goes through the entries of the database in the
  loader's order; for each entry it calls \<open>parse\<close> with the entry's file key and the
  configuration the constructor builds from the database for that key, until a call
  throws, which ends the iteration with that exception. When no call throws, there is
  one call for every entry and no failure. When no key is listed twice, the
  configuration is the one built from the entry's own command line.
\<close>

theorem parse_database_visits_each_entry:
  "(\<exists>cs. list_all2 (\<lambda>f c. config_from_database env db f = Inr c) (map fst (entries db)) cs
         \<and> parse_database env P p db = parse_until_throw P p (zip (map fst (entries db)) cs)
         \<and> ((\<forall>q f c. snd (P q f c) = None) \<longrightarrow>
              parse_database env P p db
              = (foldl (\<lambda>q (f, c). fst (P q f c)) p (zip (map fst (entries db)) cs), None)))
   \<and> (distinct (map fst (entries db)) \<longrightarrow>
        parse_database env P p db
        = parse_until_throw P p
            (map (\<lambda>(f, command). (f, config_from_record env command)) (entries db)))"
proof -
  obtain cs where cs:
    "list_all2 (\<lambda>f c. config_from_database env db f = Inr c) (map fst (entries db)) cs"
    using listed_configs [of "map fst (entries db)" db env] by auto
  have general: "parse_database env P p db = parse_until_throw P p (zip (map fst (entries db)) cs')"
    if "list_all2 (\<lambda>f c. config_from_database env db f = Inr c) (map fst (entries db)) cs'" for cs'
    using parse_database_loop [OF that, of p P]
    by (simp add: parse_database_def for_each_file_def)
  have quiet: "parse_database env P p db
               = (foldl (\<lambda>q (f, c). fst (P q f c)) p (zip (map fst (entries db)) cs), None)"
    if "\<forall>q f c. snd (P q f c) = None"
    using general [OF cs] parse_until_throw_no_throw [OF that] by simp
  have own: "parse_database env P p db
        = parse_until_throw P p
            (map (\<lambda>(f, command). (f, config_from_record env command)) (entries db))"
    if "distinct (map fst (entries db))"
    using general [OF distinct_configs [OF that subset_refl that, of env]]
    by (simp add: zip_keys_configs)
  from cs general [OF cs] quiet own show ?thesis by blast
qed

theorem parse_database_visits_each_entry_witness:
  "distinct (map fst (entries two_file_database))
   \<and> (\<forall>q f c. snd (recording_parse q f c) = None)
   \<and> parse_database scenario_environment recording_parse [] two_file_database
      = ([(''/src/b.cc'',
           config_from_record scenario_environment [''clang++'', ''-DB'', ''-o'', ''b.o'', ''/src/b.cc'']),
          (''/src/a.cpp'',
           config_from_record scenario_environment [''clang++'', ''-std=c++14'', ''-c'', ''/src/a.cpp''])],
         None)"
proof -
  have d: "distinct (map fst (entries two_file_database))"
    by (simp add: entries_def two_file_database_def)
  have e: "entries two_file_database
           = [(''/src/b.cc'', [''clang++'', ''-DB'', ''-o'', ''b.o'', ''/src/b.cc'']),
              (''/src/a.cpp'', [''clang++'', ''-std=c++14'', ''-c'', ''/src/a.cpp''])]"
    by (simp add: entries_def two_file_database_def)
  have q: "\<forall>q f c. snd (recording_parse q f c) = None"
    by (simp add: recording_parse_def)
  have "parse_database scenario_environment recording_parse [] two_file_database
        = parse_until_throw recording_parse []
            (map (\<lambda>(f, command). (f, config_from_record scenario_environment command))
               (entries two_file_database))"
    using d parse_database_visits_each_entry
      [where db = two_file_database and env = scenario_environment and P = recording_parse
         and p = "[]"]
    by blast
  then have "parse_database scenario_environment recording_parse [] two_file_database
      = ([(''/src/b.cc'',
           config_from_record scenario_environment [''clang++'', ''-DB'', ''-o'', ''b.o'', ''/src/b.cc'']),
          (''/src/a.cpp'',
           config_from_record scenario_environment [''clang++'', ''-std=c++14'', ''-c'', ''/src/a.cpp''])],
         None)"
    by (simp add: e recording_parse_def)
  with d q show ?thesis by (intro conjI)
qed

text \<open>
  The claim as it is written, every entry visited, fails when \<open>parse\<close> throws: with a
  fatal parse error on the first of two entries the second is never visited.
\<close>

theorem parse_database_fatal_counterexample:
  "map fst (entries two_file_database) = [''/src/b.cc'', ''/src/a.cpp'']
   \<and> parse_database scenario_environment (recording_parse_fatal_on ''/src/b.cc'') []
        two_file_database
      = ([(''/src/b.cc'',
           config_from_record scenario_environment [''clang++'', ''-DB'', ''-o'', ''b.o'', ''/src/b.cc''])],
         Some (libclang_error ''fatal parse error''))"
  by (simp add: parse_database_def for_each_file_def parse_database_callback_def
      config_from_database_def entries_def two_file_database_def recording_parse_fatal_on_def)

subsection \<open>The parser type of the batch entry points\<close>

lemma static_assert_cases:
  "static_assert b msg body = (if b then well_formed body else ill_formed msg)"
  by (simp add: static_assert_def)

text \<open>
  C8, as amended. Both entry points test \<^verbatim>\<open>FileParser::parser\<close> when the template is
  instantiated: with the libclang parser the instantiation is the function of the body,
  with any other parser type it is ill-formed with the message of the assertion, and
  there is no function to call.
\<close>

theorem batch_entry_points_static_assert:
  "parse_files_template env cp FileParser
     = (if parser_t FileParser = libclang_parser
        then well_formed (parse_files env cp (parse FileParser))
        else ill_formed ''must use the libclang parser'')
   \<and> parse_database_template env FileParser
     = (if parser_t FileParser = libclang_parser
        then well_formed (parse_database env (parse FileParser))
        else ill_formed ''must use the libclang parser'')"
  by (simp add: parse_files_template_def parse_database_template_def static_assert_cases)

theorem batch_entry_points_static_assert_witness:
  "parse_files_template scenario_environment never_continue
     \<lparr>parser_t = libclang_parser, parse = recording_parse\<rparr>
     = well_formed (parse_files scenario_environment never_continue recording_parse)
   \<and> parse_database_template scenario_environment
     \<lparr>parser_t = libclang_parser, parse = recording_parse\<rparr>
     = well_formed (parse_database scenario_environment recording_parse)
   \<and> parse_files_template scenario_environment never_continue
     \<lparr>parser_t = other_parser ''tooling'', parse = recording_parse\<rparr>
     = ill_formed ''must use the libclang parser''"
  using batch_entry_points_static_assert
      [where env = scenario_environment and cp = never_continue
         and FileParser = "\<lparr>parser_t = libclang_parser, parse = recording_parse\<rparr>"]
    batch_entry_points_static_assert
      [where env = scenario_environment and cp = never_continue
         and FileParser = "\<lparr>parser_t = other_parser ''tooling'', parse = recording_parse\<rparr>"]
  by simp

text \<open>
  The claim as it is written has the entry points fail with InvalidArgument for another
  parser type. For such a type there is no function to call: the instantiation is
  rejected with the assertion's message.
\<close>

theorem batch_entry_points_other_parser_counterexample:
  "parse_files_template scenario_environment never_continue
     \<lparr>parser_t = other_parser ''clang_tooling'', parse = recording_parse\<rparr>
     = ill_formed ''must use the libclang parser''
   \<and> parse_database_template scenario_environment
     \<lparr>parser_t = other_parser ''clang_tooling'', parse = recording_parse\<rparr>
     = ill_formed ''must use the libclang parser''"
  by (simp add: parse_files_template_def parse_database_template_def static_assert_def)

subsection \<open>The name tag and the parser driver\<close>

lemma preprocess_spawns: "snd (preprocess orc c path) \<noteq> []"
  by (simp add: preprocess_def split: option.splits)

text \<open>
  C5. The name tag of every libclang compile configuration is \<open>''libclang''\<close>. A parse
  call with a configuration whose tag differs from the parser's own fails with
  InvalidArgument and has spawned no child process; a call with a libclang
  configuration spawns at least one.
\<close>

theorem name_tag_checked_before_any_child:
  "name (libclang_config c) = ''libclang''
   \<and> (name config \<noteq> libclang_parser_name \<longrightarrow>
        do_parse orc path config = (Inl InvalidArgument, []))
   \<and> snd (do_parse orc path (libclang_config c)) \<noteq> []"
proof -
  have "snd (do_parse orc path (libclang_config c)) \<noteq> []"
    using preprocess_spawns [of orc c path]
    by (cases "preprocess orc c path")
       (auto simp: do_parse_def do_get_name_def libclang_parser_name_def split: sum.splits)
  then show ?thesis
    by (simp add: do_parse_def do_get_name_def)
qed

theorem name_tag_checked_before_any_child_witness:
  "name (other_config ''tooling'') \<noteq> libclang_parser_name
   \<and> do_parse scenario_externals ''/src/a.cpp'' (other_config ''tooling'')
      = (Inl InvalidArgument, [])
   \<and> name (libclang_config scenario_config) = ''libclang''"
  using name_tag_checked_before_any_child
    [where config = "other_config ''tooling''" and orc = scenario_externals
       and path = "''/src/a.cpp''" and c = scenario_config]
  by (simp add: libclang_parser_name_def)

subsection \<open>Comments in macro expansions\<close>








subsection \<open>Copies of a configuration\<close>

lemma call_setters_frame:
  "s b = Some x \<Longrightarrow>
   \<exists>s'. call_setters s b ops = Some s' \<and> s' b = Some (foldl apply_setter x ops)
        \<and> (\<forall>a. a \<noteq> b \<longrightarrow> s' a = s a)"
proof (induction ops arbitrary: s x)
  case Nil
  then show ?case by simp
next
  case (Cons op ops)
  let ?s1 = "s(b \<mapsto> apply_setter x op)"
  have "?s1 b = Some (apply_setter x op)"
    by simp
  with Cons.IH [of ?s1 "apply_setter x op"] obtain s' where s':
    "call_setters ?s1 b ops = Some s'"
    "s' b = Some (foldl apply_setter (apply_setter x op) ops)"
    "\<forall>a. a \<noteq> b \<longrightarrow> s' a = ?s1 a"
    by blast
  have "call_setters s b (op # ops) = Some s'"
    using Cons.prems s'(1) by simp
  moreover have "\<forall>a. a \<noteq> b \<longrightarrow> s' a = s a"
    using s'(3) by simp
  ultimately show ?case
    using s'(2) by simp
qed

text \<open>
  C9. Copy construction and copy assignment from the configuration \<open>c\<close> at one address
  give, at another address, a configuration equal to \<open>c\<close>, and leave \<open>c\<close> where it was.
  Any sequence of setters called on the copy afterwards changes the copy as the setters
  say and leaves the original equal to \<open>c\<close>.
\<close>

theorem copy_is_independent:
  "(s a = Some c \<and> a \<noteq> b \<longrightarrow>
      (\<exists>s1 s2. copy_construct s b a = Some s1 \<and> s1 b = Some c \<and> s1 a = Some c
              \<and> call_setters s1 b ops = Some s2
              \<and> s2 a = Some c \<and> s2 b = Some (foldl apply_setter c ops)))
   \<and> (s a = Some c \<and> a \<noteq> b \<and> s b = Some old \<longrightarrow>
      (\<exists>s1 s2. copy_assign s b a = Some s1 \<and> s1 b = Some c \<and> s1 a = Some c
              \<and> call_setters s1 b ops = Some s2
              \<and> s2 a = Some c \<and> s2 b = Some (foldl apply_setter c ops)))"
proof -
  have after: "\<exists>s2. call_setters (s(b \<mapsto> c)) b ops = Some s2
                    \<and> s2 a = Some c \<and> s2 b = Some (foldl apply_setter c ops)"
    if "s a = Some c" "a \<noteq> b"
    using call_setters_frame [of "s(b \<mapsto> c)" b c ops] that by auto
  show ?thesis
    using after by (auto simp: copy_construct_def copy_assign_def)
qed


theorem copy_is_independent_witness:
  "map_of [(0::nat, scenario_config), (1, default_config scenario_environment)] 0
       = Some scenario_config
   \<and> (0::nat) \<noteq> 1
   \<and> map_of [(0::nat, scenario_config), (1, default_config scenario_environment)] 1
       = Some (default_config scenario_environment)
   \<and> (\<exists>s1 s2.
         copy_assign (map_of [(0, scenario_config), (1, default_config scenario_environment)]) 1 0
           = Some s1
         \<and> s1 1 = Some scenario_config \<and> s1 0 = Some scenario_config
         \<and> call_setters s1 1
              [Set_clang_binary ''/opt/clang++'' 5 0 1, Remove_comments_in_macro True] = Some s2
         \<and> s2 0 = Some scenario_config
         \<and> s2 1 = Some (scenario_config
               \<lparr>clang_binary_m := ''/opt/clang++'', clang_version_m := 50001,
                remove_comments_in_macro_m := True\<rparr>))
   \<and> (\<exists>s1 s2.
         copy_construct (map_of [(0, scenario_config)]) 1 0 = Some s1
         \<and> s1 1 = Some scenario_config \<and> s1 0 = Some scenario_config
         \<and> call_setters s1 1 [Write_preprocessed True] = Some s2
         \<and> s2 0 = Some scenario_config
         \<and> s2 1 = Some (scenario_config\<lparr>write_preprocessed_m := True\<rparr>))"
proof -
  let ?s = "map_of [(0::nat, scenario_config), (1, default_config scenario_environment)]"
  have h: "?s 0 = Some scenario_config" "(0::nat) \<noteq> 1"
          "?s 1 = Some (default_config scenario_environment)"
    by simp_all
  have k: "map_of [(0::nat, scenario_config)] 0 = Some scenario_config"
    by simp
  have assigned: "\<exists>s1 s2.
         copy_assign ?s 1 0 = Some s1
         \<and> s1 1 = Some scenario_config \<and> s1 0 = Some scenario_config
         \<and> call_setters s1 1
              [Set_clang_binary ''/opt/clang++'' 5 0 1, Remove_comments_in_macro True] = Some s2
         \<and> s2 0 = Some scenario_config
         \<and> s2 1 = Some (foldl apply_setter scenario_config
              [Set_clang_binary ''/opt/clang++'' 5 0 1, Remove_comments_in_macro True])"
    using h copy_is_independent
      [where s = ?s and a = 0 and b = 1 and c = scenario_config
         and old = "default_config scenario_environment"
         and ops = "[Set_clang_binary ''/opt/clang++'' 5 0 1, Remove_comments_in_macro True]"]
    by blast
  have constructed: "\<exists>s1 s2.
         copy_construct (map_of [(0, scenario_config)]) 1 0 = Some s1
         \<and> s1 1 = Some scenario_config \<and> s1 0 = Some scenario_config
         \<and> call_setters s1 1 [Write_preprocessed True] = Some s2
         \<and> s2 0 = Some scenario_config
         \<and> s2 1 = Some (foldl apply_setter scenario_config [Write_preprocessed True])"
    using k h(2) copy_is_independent
      [where s = "map_of [(0, scenario_config)]" and a = 0 and b = 1 and c = scenario_config
         and old = scenario_config and ops = "[Write_preprocessed True]"]
    by blast
  have e1: "foldl apply_setter scenario_config
              [Set_clang_binary ''/opt/clang++'' 5 0 1, Remove_comments_in_macro True]
            = scenario_config\<lparr>clang_binary_m := ''/opt/clang++'', clang_version_m := 50001,
                remove_comments_in_macro_m := True\<rparr>"
    by (simp add: set_clang_binary_def remove_comments_in_macro_def)
  have e2: "foldl apply_setter scenario_config [Write_preprocessed True]
            = scenario_config\<lparr>write_preprocessed_m := True\<rparr>"
    by (simp add: write_preprocessed_def)
  show ?thesis
    using h assigned [unfolded e1] constructed [unfolded e2]
    by - (intro conjI, assumption+)
qed

end
